theory Spec2Isabelle
  imports Main
begin

section \<open>Go values used by the driver\<close>

text \<open>
  A Go \<^verbatim>\<open>string\<close> or \<^verbatim>\<open>[]byte\<close> is a list of bytes, written as an Isabelle
  \<^typ>\<open>string\<close> (a list of 8-bit characters). A Go \<^verbatim>\<open>error\<close> is a value of the datatype
  \<open>error\<close>, one constructor per way the sources build one: \<^verbatim>\<open>errors.New(msg)\<close>,
  \<^verbatim>\<open>fmt.Errorf(format, args...)\<close> (kept as the format and its arguments), and an error
  handed back by a library (\<^verbatim>\<open>net/url\<close>, \<^verbatim>\<open>net/http\<close>, \<^verbatim>\<open>net\<close>), kept as its message.
  A \<^verbatim>\<open>nil\<close> error is \<open>None\<close>.
\<close>

datatype fmt_arg = ArgD int | ArgS string

datatype error = errors_New string | fmt_Errorf string "fmt_arg list" | lib_error string

section \<open>The UDP chunker (udp.go)\<close>

definition newline :: char where
  "newline = CHR 0x0A"

text \<open>\<^verbatim>\<open>bytes.IndexByte(b, c)\<close>: the index of the first \<open>c\<close> in \<open>b\<close>, or \<open>-1\<close>.\<close>

fun IndexByte :: "string \<Rightarrow> char \<Rightarrow> int" where
  "IndexByte [] c = - 1"
| "IndexByte (x # xs) c =
     (if x = c then 0
      else (let i = IndexByte xs c in if i < 0 then - 1 else i + 1))"

text \<open>
  The local \<^verbatim>\<open>head\<close> of \<^verbatim>\<open>udpPayload\<close> starts as the \<^verbatim>\<open>nil\<close> slice and the function
  tests \<^verbatim>\<open>head == nil\<close> at its end, so \<^verbatim>\<open>head\<close> is an option: \<open>None\<close> is \<^verbatim>\<open>nil\<close>.
  \<open>len\<close> and \<open>append_bytes\<close> are Go's \<^verbatim>\<open>len\<close> and \<^verbatim>\<open>append(head, xs...)\<close> on it
  (appending no byte to \<^verbatim>\<open>nil\<close> gives \<^verbatim>\<open>nil\<close>).
\<close>

definition len :: "string option \<Rightarrow> nat" where
  "len head = (case head of None \<Rightarrow> 0 | Some h \<Rightarrow> length h)"

definition append_bytes :: "string option \<Rightarrow> string \<Rightarrow> string option" where
  "append_bytes head xs =
     (case head of
        None \<Rightarrow> (if xs = [] then None else Some xs)
      | Some h \<Rightarrow> Some (h @ xs))"

lemma IndexByte_ge: "- 1 \<le> IndexByte xs c"
  by (induction xs) (auto simp: Let_def)

lemma IndexByte_less: "IndexByte xs c < int (length xs)"
  by (induction xs) (auto simp: Let_def)

lemma IndexByte_pos_nonempty: "0 < IndexByte xs c \<Longrightarrow> xs \<noteq> []"
  by (cases xs) auto

text \<open>
  The loop of \<^verbatim>\<open>udpPayload\<close>:
  \<^verbatim>\<open>for len(head) < size { if pos := bytes.IndexByte(tail, '\n'); pos > 0 {
      head, tail = append(head, tail[:pos]...), tail[pos:]; continue }; break }\<close>.
  \<open>pos\<close> is below \<open>len(tail)\<close> (lemma \<open>IndexByte_less\<close>), so both slice expressions
  are in range and are \<open>take\<close> and \<open>drop\<close>.
\<close>

function udpPayload_loop :: "string option \<Rightarrow> string \<Rightarrow> int \<Rightarrow> string option \<times> string" where
  "udpPayload_loop head tail sz =
     (if int (len head) < sz then
        (let pos = IndexByte tail newline in
         if pos > 0 then
           udpPayload_loop (append_bytes head (take (nat pos) tail)) (drop (nat pos) tail) sz
         else (head, tail))
      else (head, tail))"
  by pat_completeness auto
termination
proof (relation "measure (\<lambda>(head, tail, sz). length tail)")
  show "wf (measure (\<lambda>(head, tail, sz). length tail))" by simp
next
  fix head :: "string option" and tail :: string and sz pos :: int
  assume "pos = IndexByte tail newline" and "0 < pos"
  then have "tail \<noteq> []" by (auto dest: IndexByte_pos_nonempty)
  with \<open>0 < pos\<close>
  show "((append_bytes head (take (nat pos) tail), drop (nat pos) tail, sz), head, tail, sz)
          \<in> measure (\<lambda>(head, tail, sz). length tail)"
    by simp
qed

declare udpPayload_loop.simps [simp del]

text \<open>
  \<^verbatim>\<open>udpPayload(data, size)\<close>: \<^verbatim>\<open>head, tail = nil, data\<close>, the loop, then
  \<^verbatim>\<open>if head == nil { head, tail = data, nil }\<close>. The results are plain byte lists
  (the callers only take their length and their bytes).
\<close>

definition udpPayload :: "string \<Rightarrow> int \<Rightarrow> string \<times> string" where
  "udpPayload data sz =
     (case udpPayload_loop None data sz of
        (None, tail) \<Rightarrow> (data, [])
      | (Some head, tail) \<Rightarrow> (head, tail))"

text \<open>
  \<^verbatim>\<open>udpWrite(conn, data, size)\<close>. The connection is a state \<open>k\<close> and its method
  \<^verbatim>\<open>conn.Write\<close> a function \<open>cw\<close> giving the error (if any) and the next state; the byte
  count it returns is dropped by the source. The loop has no bound of its own, so it is a
  partial function: \<open>None\<close> would be a loop that never returns. Each round sends
  \<^verbatim>\<open>data\<close>, the whole payload, as the source does (\<^verbatim>\<open>conn.Write(data)\<close>).
\<close>

partial_function (option) udpWrite_loop ::
  "('k \<Rightarrow> string \<Rightarrow> error option \<times> 'k) \<Rightarrow> 'k \<Rightarrow> string \<Rightarrow> string \<Rightarrow> int \<Rightarrow> (error option \<times> 'k) option"
where
  "udpWrite_loop cw k data tail sz =
     (case udpPayload tail sz of
        (head, tail') \<Rightarrow>
          if length head = 0 then Some (None, k)
          else (case cw k data of
                  (Some err, k') \<Rightarrow> Some (Some err, k')
                | (None, k') \<Rightarrow> udpWrite_loop cw k' data tail' sz))"

declare udpWrite_loop.simps [code]

definition udpWrite ::
  "('k \<Rightarrow> string \<Rightarrow> error option \<times> 'k) \<Rightarrow> 'k \<Rightarrow> string \<Rightarrow> int \<Rightarrow> (error option \<times> 'k) option"
where
  "udpWrite cw k data sz = udpWrite_loop cw k data data sz"

lemma IndexByte_at:
  "0 \<le> IndexByte xs c \<Longrightarrow> IndexByte (drop (nat (IndexByte xs c)) xs) c = 0"
proof (induction xs)
  case Nil
  then show ?case by simp
next
  case (Cons x xs)
  show ?case
  proof (cases "x = c")
    case True
    then show ?thesis by simp
  next
    case False
    with Cons.prems have nn: "0 \<le> IndexByte xs c"
      by (auto simp: Let_def split: if_splits)
    with False have "IndexByte (x # xs) c = IndexByte xs c + 1"
      by (simp add: Let_def)
    moreover have "nat (IndexByte xs c + 1) = Suc (nat (IndexByte xs c))"
      using nn by simp
    ultimately show ?thesis using Cons.IH [OF nn] by simp
  qed
qed

text \<open>What one call of \<^verbatim>\<open>udpPayload\<close> returns, in closed form.\<close>

lemma udpPayload_eq:
  "udpPayload data sz =
     (if 0 < sz \<and> 0 < IndexByte data newline
      then (take (nat (IndexByte data newline)) data, drop (nat (IndexByte data newline)) data)
      else (data, []))"
proof (cases "0 < sz \<and> 0 < IndexByte data newline")
  case False
  then have "udpPayload_loop None data sz = (None, data)"
    by (subst udpPayload_loop.simps) (auto simp: len_def Let_def)
  with False show ?thesis by (auto simp: udpPayload_def)
next
  case True
  define pos where "pos = IndexByte data newline"
  have pos: "0 < pos" "0 < sz" using True by (simp_all add: pos_def)
  have ne: "take (nat pos) data \<noteq> []"
    using pos IndexByte_pos_nonempty [of data newline] by (auto simp: pos_def)
  have nxt: "IndexByte (drop (nat pos) data) newline = 0"
    using IndexByte_at [of data newline] pos by (simp add: pos_def)
  have stop: "udpPayload_loop (Some (take (nat pos) data)) (drop (nat pos) data) sz
                = (Some (take (nat pos) data), drop (nat pos) data)"
    by (subst udpPayload_loop.simps) (simp add: nxt Let_def)
  have "udpPayload_loop None data sz
          = udpPayload_loop (append_bytes None (take (nat pos) data)) (drop (nat pos) data) sz"
    using pos by (subst udpPayload_loop.simps) (simp add: len_def Let_def pos_def)
  also have "append_bytes None (take (nat pos) data) = Some (take (nat pos) data)"
    using ne by (simp add: append_bytes_def)
  finally have "udpPayload_loop None data sz = (Some (take (nat pos) data), drop (nat pos) data)"
    using stop by simp
  with True show ?thesis by (simp add: udpPayload_def pos_def)
qed

lemma udpPayload_concat: "udpPayload data sz = (head, tail) \<Longrightarrow> head @ tail = data"
  by (auto simp: udpPayload_eq split: if_splits)

lemma udpPayload_head_empty: "fst (udpPayload data sz) = [] \<longleftrightarrow> data = []"
  using IndexByte_pos_nonempty [of data newline]
  by (auto simp: udpPayload_eq)

lemma udpPayload_progress:
  assumes "udpPayload data sz = (head, tail)" and "head \<noteq> []"
  shows "length tail < length data"
proof -
  from assms(1) have "head @ tail = data" by (rule udpPayload_concat)
  then have "length data = length head + length tail" by auto
  with assms(2) show ?thesis by simp
qed

text \<open>
  The chunks of a payload: the \<^verbatim>\<open>head\<close>s that the rounds of the loop of \<^verbatim>\<open>udpWrite\<close>
  compute one after the other, up to the empty one that ends the loop.
\<close>

function udpChunks :: "string \<Rightarrow> int \<Rightarrow> string list" where
  "udpChunks tail sz =
     (case udpPayload tail sz of
        (head, tail') \<Rightarrow> if length head = 0 then [] else head # udpChunks tail' sz)"
  by pat_completeness auto
termination
proof (relation "measure (\<lambda>(tail, sz). length tail)")
  show "wf (measure (\<lambda>(tail, sz). length tail))" by simp
next
  fix tail :: string and sz :: int and head tail' :: string
  assume "(head, tail') = udpPayload tail sz" and "length head \<noteq> 0"
  then have "length tail' < length tail"
    using udpPayload_progress [of tail sz head tail'] by simp
  then show "((tail', sz), tail, sz) \<in> measure (\<lambda>(tail, sz). length tail)"
    by simp
qed

declare udpChunks.simps [simp del]

section \<open>Client values (client.go, http.go)\<close>

text \<open>
  A function that can panic returns an \<open>outcome\<close>: \<open>Panic\<close> with the message, or
  \<open>Return\<close> with what the Go function returns.
\<close>

datatype 'a outcome = Panic string | Return 'a

text \<open>\<^verbatim>\<open>models.Row\<close> belongs to the InfluxDB library; the driver never looks inside.\<close>

typedecl Row

record Message =
  Level :: string
  Text :: string

record Result =
  Series :: "Row list"
  Messages :: "Message list"
  Err :: string

record Response =
  Results :: "Result list"
  Err :: string

record WriteConfig =
  Precision :: string
  Database :: string
  RetentionPolicy :: string
  WriteConsistency :: string

record Query =
  Command :: string
  Database :: string
  Precision :: string

definition NewQuery :: "string \<Rightarrow> string \<Rightarrow> string \<Rightarrow> Query" where
  "NewQuery command database precision =
     \<lparr>Command = command, Query.Database = database, Query.Precision = precision\<rparr>"

text \<open>
  \<^verbatim>\<open>Response.Error()\<close>: the response's own \<^verbatim>\<open>Err\<close> if it is not empty, else the
  \<^verbatim>\<open>Err\<close> of the first result that has one, else \<^verbatim>\<open>nil\<close>. The error is
  \<^verbatim>\<open>fmt.Errorf(r.Err)\<close>, the text used as a format with no argument.
\<close>

fun first_Err :: "Result list \<Rightarrow> error option" where
  "first_Err [] = None"
| "first_Err (r # rs) =
     (if Result.Err r \<noteq> [] then Some (fmt_Errorf (Result.Err r) []) else first_Err rs)"

definition Response_Error :: "Response \<Rightarrow> error option" where
  "Response_Error r =
     (if Response.Err r \<noteq> [] then Some (fmt_Errorf (Response.Err r) [])
      else first_Err (Results r))"

text \<open>
  A point is what the driver uses of it: \<^verbatim>\<open>p.PrecisionString(precision)\<close>, its line at a
  precision. \<^verbatim>\<open>BatchPoints.Bytes(precision)\<close> writes each point's line and a newline.
\<close>

datatype Point = Point (PrecisionString: "string \<Rightarrow> string")

definition Bytes :: "Point list \<Rightarrow> string \<Rightarrow> string" where
  "Bytes points precision = concat (map (\<lambda>p. PrecisionString p precision @ [newline]) points)"

text \<open>
  The \<^verbatim>\<open>Client\<close> interface: a table of methods over the state \<open>'c\<close> of whatever
  implements it. Each method returns its Go results and the next state of the client.
  Durations are integers.
\<close>

record 'c Client =
  Ping :: "'c \<Rightarrow> int \<Rightarrow> (int \<times> string \<times> error option) \<times> 'c"
  Write :: "'c \<Rightarrow> string \<Rightarrow> WriteConfig \<Rightarrow> error option \<times> 'c"
  Query :: "'c \<Rightarrow> Query \<Rightarrow> (Response option \<times> error option) \<times> 'c"
  Close :: "'c \<Rightarrow> error option \<times> 'c"

text \<open>
  The end of \<^verbatim>\<open>httpClient.Query\<close>, from the decoding of the response body on. Its inputs
  are what the lines before leave behind: the HTTP response (status code and body), the
  decoder's error \<^verbatim>\<open>decErr\<close> (its message, \<open>None\<close> for \<^verbatim>\<open>nil\<close>) and the decoded
  \<^verbatim>\<open>response\<close>. \<^verbatim>\<open>http.StatusOK\<close> is 200.
\<close>

record http_Response =
  StatusCode :: int
  Body :: string

definition httpClient_Query_decoded ::
  "http_Response \<Rightarrow> string option \<Rightarrow> Response \<Rightarrow> Response option \<times> error option"
where
  "httpClient_Query_decoded resp decErr0 response =
     (let decErr = (if decErr0 \<noteq> None \<and> decErr0 = Some ''EOF'' \<and> StatusCode resp \<noteq> 200
                    then None else decErr0)
      in case decErr of
           Some msg \<Rightarrow>
             (None, Some (fmt_Errorf ''unable to decode json: received status code %d err: %s''
                            [ArgD (StatusCode resp), ArgS msg]))
         | None \<Rightarrow>
             if StatusCode resp \<noteq> 200 \<and> Response_Error response = None
             then (Some response,
                   Some (fmt_Errorf ''received status code %d from server'' [ArgD (StatusCode resp)]))
             else (Some response, None))"

section \<open>The driver (influx.go)\<close>

subsection \<open>Opening a connection\<close>







text \<open>
  The connection: its client, database, precision and transaction slot \<open>tx\<close>, a pointer
  to a transaction (\<open>None\<close> for \<^verbatim>\<open>nil\<close>). Pointers are addresses, see below.
\<close>

record 'c conn =
  c :: 'c
  database :: string
  precision :: string
  tx :: "nat option"


subsection \<open>Statements\<close>

text \<open>
  \<^verbatim>\<open>rxInsert\<close> is the pattern
  \<^verbatim>\<open>^(?i:INSERT\s+INTO)\s+([a-zA-Z0-9_\-]+)\.(.*)\<close>, read piece by piece on the bytes of
  the text, as Go's \<^verbatim>\<open>regexp\<close> reads it:
  \<^item> \<^verbatim>\<open>\s\<close> is one of tab, newline, form feed, carriage return and space;
  \<^item> a letter under \<^verbatim>\<open>(?i:...)\<close> matches every rune of its \<^verbatim>\<open>unicode.SimpleFold\<close>
    orbit: the letter, its lower case and, for \<open>S\<close>, U+017F (bytes C5 BF), for \<open>K\<close>,
    U+212A (bytes E2 84 AA);
  \<^item> \<^verbatim>\<open>.\<close> is any rune but the newline, so \<^verbatim>\<open>(.*)\<close> ends at the first newline byte or
    at the end of the text.
  No piece can match where the next one starts (a space is no letter and no identifier
  character, an identifier character is no dot), so the greedy match is the only one.
\<close>

definition is_space :: "char \<Rightarrow> bool" where
  "is_space x = (x \<in> set [CHR 0x09, CHR 0x0A, CHR 0x0C, CHR 0x0D, CHR 0x20])"

definition is_ident :: "char \<Rightarrow> bool" where
  "is_ident x = (x \<in> set ''abcdefghijklmnopqrstuvwxyzABCDEFGHIJKLMNOPQRSTUVWXYZ0123456789_-'')"

definition is_upper :: "char \<Rightarrow> bool" where
  "is_upper x = (x \<in> set ''ABCDEFGHIJKLMNOPQRSTUVWXYZ'')"

definition to_lower :: "char \<Rightarrow> char" where
  "to_lower x =
     (case map_of (zip ''ABCDEFGHIJKLMNOPQRSTUVWXYZ'' ''abcdefghijklmnopqrstuvwxyz'') x of
        None \<Rightarrow> x
      | Some y \<Rightarrow> y)"

definition fold_orbit :: "char \<Rightarrow> string list" where
  "fold_orbit x =
     (if x = CHR ''S'' then [[CHR ''S''], [CHR ''s''], [CHR 0xC5, CHR 0xBF]]
      else if x = CHR ''K'' then [[CHR ''K''], [CHR ''k''], [CHR 0xE2, CHR 0x84, CHR 0xAA]]
      else if is_upper x then [[x], [to_lower x]]
      else [[x]])"

definition strip_prefix :: "string \<Rightarrow> string \<Rightarrow> string option" where
  "strip_prefix p s = (if take (length p) s = p then Some (drop (length p) s) else None)"

fun match_any :: "string list \<Rightarrow> string \<Rightarrow> string option" where
  "match_any [] s = None"
| "match_any (v # vs) s =
     (case strip_prefix v s of Some r \<Rightarrow> Some r | None \<Rightarrow> match_any vs s)"

text \<open>A literal under \<^verbatim>\<open>(?i:...)\<close> at the head of \<open>s\<close>: what follows it, if it matches.\<close>

fun match_fold :: "string \<Rightarrow> string \<Rightarrow> string option" where
  "match_fold [] s = Some s"
| "match_fold (x # xs) s =
     (case match_any (fold_orbit x) s of None \<Rightarrow> None | Some r \<Rightarrow> match_fold xs r)"

text \<open>\<^verbatim>\<open>\s+\<close> at the head of \<open>s\<close>.\<close>

definition match_spaces :: "string \<Rightarrow> string option" where
  "match_spaces s =
     (case s of [] \<Rightarrow> None | x # xs \<Rightarrow> if is_space x then Some (dropWhile is_space s) else None)"

text \<open>
  \<^verbatim>\<open>rxInsert.FindStringSubmatch(query)\<close>: \<^verbatim>\<open>nil\<close> (the empty list) when the pattern does
  not match, else the whole match and the two groups.
\<close>

definition rxInsert_FindStringSubmatch :: "string \<Rightarrow> string list" where
  "rxInsert_FindStringSubmatch query =
     (case match_fold ''INSERT'' query of None \<Rightarrow> [] | Some r1 \<Rightarrow>
      case match_spaces r1 of None \<Rightarrow> [] | Some r2 \<Rightarrow>
      case match_fold ''INTO'' r2 of None \<Rightarrow> [] | Some r3 \<Rightarrow>
      case match_spaces r3 of None \<Rightarrow> [] | Some r4 \<Rightarrow>
        (let ident = takeWhile is_ident r4 in
         case dropWhile is_ident r4 of
           [] \<Rightarrow> []
         | d # r6 \<Rightarrow>
             if ident \<noteq> [] \<and> d = CHR ''.'' then
               (let rest = takeWhile (\<lambda>x. x \<noteq> newline) r6
                in [take (length query - length r6 + length rest) query, ident, rest])
             else []))"

text \<open>
  The two statement types, both a \<^verbatim>\<open>driver.Stmt\<close>. Their \<^verbatim>\<open>conn\<close> field points to the
  connection that prepared them; the model has one connection, so the field is left out.
  \<open>stmt query\<close> holds the \<^verbatim>\<open>query\<close>; \<open>insertStmt db query\<close> holds \<^verbatim>\<open>db\<close> and
  \<^verbatim>\<open>query\<close>.
\<close>

datatype Stmt = stmt string | insertStmt string string

definition newStmt :: "string \<Rightarrow> Stmt \<times> error option" where
  "newStmt query =
     (let m = rxInsert_FindStringSubmatch query
      in if length m \<noteq> 3 then (stmt query, None)
         else (insertStmt (m ! 1) (m ! 2), None))"

definition Prepare :: "string \<Rightarrow> Stmt \<times> error option" where
  "Prepare query = newStmt query"

subsection \<open>Transactions and the state of the driver\<close>

text \<open>
  A \<^verbatim>\<open>*tx\<close> and a \<^verbatim>\<open>*BatchPoints\<close> are addresses: indices into the lists \<open>txs\<close> and
  \<open>batches\<close> of the objects allocated so far. Allocating appends an object, so a new
  address is always fresh, and no object is ever freed. A \<^verbatim>\<open>BatchPoints\<close> object is its
  \<^verbatim>\<open>points\<close>. A \<^verbatim>\<open>tx\<close> object holds \<open>bp\<close>, the address of its batch; its \<^verbatim>\<open>conn\<close>
  field is the one connection of the model. The state of the driver is the connection
  and the two lists. Calling a method through an address that holds no object panics
  (a \<^verbatim>\<open>nil\<close> pointer in Go).
\<close>

record tx =
  bp :: nat

record 'c world = "'c conn" +
  txs :: "tx list"
  batches :: "Point list list"

definition nil_deref :: string where
  "nil_deref = ''invalid memory address or nil pointer dereference''"

definition newTx :: "'c world \<Rightarrow> (nat \<times> error option) \<times> 'c world" where
  "newTx s =
     ((length (txs s), None),
      s\<lparr>txs := txs s @ [\<lparr>bp = length (batches s)\<rparr>], batches := batches s @ [[]]\<rparr>)"

definition Begin :: "'c world \<Rightarrow> (nat option \<times> error option) \<times> 'c world" where
  "Begin s =
     (if tx s \<noteq> None then ((None, Some (errors_New ''a Tx already begins'')), s)
      else (case newTx s of ((t, err), s') \<Rightarrow> ((Some t, err), s'\<lparr>tx := Some t\<rparr>)))"

text \<open>\<^verbatim>\<open>bp.AddPoint(p)\<close> and \<^verbatim>\<open>bp.AddPoints(ps)\<close> on the batch at address \<open>b\<close>.\<close>

definition AddPoints :: "nat \<Rightarrow> Point list \<Rightarrow> 'c world \<Rightarrow> 'c world outcome" where
  "AddPoints b ps s =
     (if b < length (batches s)
      then Return (s\<lparr>batches := (batches s)[b := batches s ! b @ ps]\<rparr>)
      else Panic nil_deref)"

definition AddPoint :: "nat \<Rightarrow> Point \<Rightarrow> 'c world \<Rightarrow> 'c world outcome" where
  "AddPoint b p s =
     (if b < length (batches s)
      then Return (s\<lparr>batches := (batches s)[b := batches s ! b @ [p]]\<rparr>)
      else Panic nil_deref)"

definition Commit :: "'c Client \<Rightarrow> nat \<Rightarrow> 'c world \<Rightarrow> (error option \<times> 'c world) outcome" where
  "Commit cl t s =
     (if t < length (txs s) \<and> bp (txs s ! t) < length (batches s) then
        (case Write cl (c s) (Bytes (batches s ! bp (txs s ! t)) ''ns'')
                \<lparr>WriteConfig.Precision = [], WriteConfig.Database = database s,
                 RetentionPolicy = [], WriteConsistency = []\<rparr> of
           (err, c') \<Rightarrow> Return (err, s\<lparr>c := c', tx := None\<rparr>))
      else Panic nil_deref)"

definition Rollback :: "nat \<Rightarrow> 'c world \<Rightarrow> (error option \<times> 'c world) outcome" where
  "Rollback t s =
     (if t < length (txs s) then
        Return (None, s\<lparr>txs := (txs s)[t := \<lparr>bp = length (batches s)\<rparr>],
                         batches := batches s @ [[]], tx := None\<rparr>)
      else Panic nil_deref)"

subsection \<open>Executing a statement\<close>

record result =
  lastInsertedID :: int
  rowsAffected :: int

definition insertStmt_Exec ::
  "'c Client \<Rightarrow> string \<Rightarrow> string \<Rightarrow> 'c world \<Rightarrow> (result option \<times> error option) outcome \<times> 'c world"
where
  "insertStmt_Exec cl dbname q s =
     (case Write cl (c s) q
             \<lparr>WriteConfig.Precision = [], WriteConfig.Database = dbname,
              RetentionPolicy = [], WriteConsistency = []\<rparr> of
        (err, c') \<Rightarrow>
          (Return (Some \<lparr>lastInsertedID = 0, rowsAffected = 0\<rparr>, err), s\<lparr>c := c'\<rparr>))"

text \<open>
  \<^verbatim>\<open>stmt.Exec\<close>. A client that returns neither a response nor an error makes
  \<^verbatim>\<open>resp.Error()\<close> read through a \<^verbatim>\<open>nil\<close> pointer.
\<close>

definition stmt_Exec ::
  "'c Client \<Rightarrow> string \<Rightarrow> 'c world \<Rightarrow> (result option \<times> error option) outcome \<times> 'c world"
where
  "stmt_Exec cl q s =
     (case Query cl (c s) (NewQuery q (database s) (precision s)) of
        ((resp, Some err), c') \<Rightarrow> (Return (None, Some err), s\<lparr>c := c'\<rparr>)
      | ((None, None), c') \<Rightarrow> (Panic nil_deref, s\<lparr>c := c'\<rparr>)
      | ((Some r, None), c') \<Rightarrow>
          (case Response_Error r of
             Some e \<Rightarrow> (Return (None, Some e), s\<lparr>c := c'\<rparr>)
           | None \<Rightarrow>
               (Return (Some \<lparr>lastInsertedID = 0, rowsAffected = int (length (Results r))\<rparr>, None),
                s\<lparr>c := c'\<rparr>)))"

text \<open>\<^verbatim>\<open>Exec\<close> through the \<^verbatim>\<open>driver.Stmt\<close> interface; the arguments are ignored.\<close>

definition Exec ::
  "'c Client \<Rightarrow> Stmt \<Rightarrow> 'c world \<Rightarrow> (result option \<times> error option) outcome \<times> 'c world"
where
  "Exec cl st s =
     (case st of
        stmt q \<Rightarrow> stmt_Exec cl q s
      | insertStmt dbname q \<Rightarrow> insertStmt_Exec cl dbname q s)"

section \<open>The form of an insert statement, in the words of the specification\<close>

text \<open>
  The specification describes an insert statement as
  \<^verbatim>\<open>INSERT INTO <identifier>.<rest>\<close>, the keyword read without regard to case and the
  identifier made of letters, digits, hyphens and underscores. \<open>insert_form text ident rest\<close>
  says that \<open>text\<close> is: a spelling of \<open>INSERT\<close>, white space, a spelling of \<open>INTO\<close>, white
  space, the identifier, a dot, and \<open>rest\<close>. A spelling of a word takes, for each letter,
  one rune of the letter's orbit (\<open>fold_words\<close> lists them all); white space is one or
  more of the characters of \<open>is_space\<close>.
\<close>

fun fold_words :: "string \<Rightarrow> string list" where
  "fold_words [] = [[]]"
| "fold_words (x # xs) = concat (map (\<lambda>v. map (\<lambda>r. v @ r) (fold_words xs)) (fold_orbit x))"

definition fold_word :: "string \<Rightarrow> string \<Rightarrow> bool" where
  "fold_word lit k = (k \<in> set (fold_words lit))"

definition space_word :: "string \<Rightarrow> bool" where
  "space_word w = (w \<noteq> [] \<and> list_all is_space w)"

definition ident_word :: "string \<Rightarrow> bool" where
  "ident_word i = (i \<noteq> [] \<and> list_all is_ident i)"

definition insert_form :: "string \<Rightarrow> string \<Rightarrow> string \<Rightarrow> bool" where
  "insert_form text ident rest =
     (\<exists>k1 w1 k2 w2. fold_word ''INSERT'' k1 \<and> space_word w1 \<and> fold_word ''INTO'' k2 \<and> space_word w2
        \<and> ident_word ident \<and> text = k1 @ w1 @ k2 @ w2 @ ident @ ''.'' @ rest)"

section \<open>Clients and library functions for the examples\<close>

text \<open>
  A client that records every call it receives and answers every write with \<open>werr\<close>.
\<close>

datatype call = PingCall int | WriteCall string WriteConfig | QueryCall Query | CloseCall

definition recorder :: "error option \<Rightarrow> (call list) Client" where
  "recorder werr =
     \<lparr>Ping = (\<lambda>k t. ((0, [], None), k @ [PingCall t])),
      Write = (\<lambda>k d cfg. (werr, k @ [WriteCall d cfg])),
      Query = (\<lambda>k q. ((Some \<lparr>Results = [], Response.Err = []\<rparr>, None), k @ [QueryCall q])),
      Close = (\<lambda>k. (None, k @ [CloseCall]))\<rparr>"


text \<open>
  A state for the examples: a connection to the database \<open>mydb\<close> with an open
  transaction (address 0) whose batch (address 0) holds one point.
\<close>

definition example_world :: "call list world" where
  "example_world =
     \<lparr>c = [], database = ''mydb'', precision = ''ns'', tx = Some 0,
      txs = [\<lparr>bp = 0\<rparr>], batches = [[Point (\<lambda>precision. ''cpu value=1 100'')]]\<rparr>"

text \<open>
  The states the driver can reach: every transaction object points to a batch object,
  and the slot of the connection, when it is not empty, points to a transaction object.
\<close>

definition wf_world :: "'c world \<Rightarrow> bool" where
  "wf_world s =
     (list_all (\<lambda>t. bp t < length (batches s)) (txs s)
      \<and> (case tx s of None \<Rightarrow> True | Some t \<Rightarrow> t < length (txs s)))"

text \<open>
  A connection for the examples: it records every datagram it is given and never fails.
\<close>

definition record_Write :: "string list \<Rightarrow> string \<Rightarrow> error option \<times> string list" where
  "record_Write k d = (None, k @ [d])"

section \<open>Properties of the UDP chunker\<close>

lemma udpPayload_empty_head: "udpPayload data sz = ([], tail) \<Longrightarrow> data = []"
  using udpPayload_head_empty [of data sz] by simp

lemma udpWrite_loop_returns: "\<exists>r. udpWrite_loop cw k data tail sz = Some r"
proof (induction "length tail" arbitrary: tail k rule: less_induct)
  case less
  obtain head tail' where p: "udpPayload tail sz = (head, tail')"
    by (cases "udpPayload tail sz")
  show ?case
  proof (cases "length head = 0")
    case True
    then show ?thesis using p by (subst udpWrite_loop.simps) simp
  next
    case False
    then have lt: "length tail' < length tail" using udpPayload_progress [OF p] by simp
    obtain e k' where w: "cw k data = (e, k')" by (cases "cw k data")
    show ?thesis
    proof (cases e)
      case None
      from less [OF lt, of k'] obtain r where "udpWrite_loop cw k' data tail' sz = Some r"
        by blast
      then show ?thesis using p False w None by (subst udpWrite_loop.simps) simp
    next
      case (Some err)
      then show ?thesis using p False w by (subst udpWrite_loop.simps) simp
    qed
  qed
qed

text \<open>
  The chunker never gives more than two chunks: the first line without its newline (when
  \<open>maxSize\<close> is positive and the payload does not start with a newline), then all the
  rest. Through a connection that records and never fails, \<^verbatim>\<open>udpWrite\<close> sends one
  datagram per chunk, each the whole payload.
\<close>

lemma udpChunks_Nil: "udpChunks [] sz = []"
  by (subst udpChunks.simps) (simp add: udpPayload_eq)

lemma udpChunks_whole:
  "data \<noteq> [] \<Longrightarrow> \<not> (0 < sz \<and> 0 < IndexByte data newline) \<Longrightarrow> udpChunks data sz = [data]"
  by (subst udpChunks.simps) (auto simp: udpPayload_eq udpChunks_Nil)

lemma udpChunks_at_most_two: "length (udpChunks data sz) \<le> 2"
proof (cases "0 < sz \<and> 0 < IndexByte data newline")
  case False
  then show ?thesis by (cases "data = []") (simp_all add: udpChunks_Nil udpChunks_whole)
next
  case True
  define pos where "pos = nat (IndexByte data newline)"
  have nxt: "IndexByte (drop pos data) newline = 0"
    using IndexByte_at [of data newline] True by (simp add: pos_def)
  have ne: "take pos data \<noteq> []"
    using True IndexByte_pos_nonempty [of data newline] by (auto simp: pos_def)
  have rest: "length (udpChunks (drop pos data) sz) \<le> 1"
    using nxt by (cases "drop pos data = []") (simp_all add: udpChunks_Nil udpChunks_whole)
  have "udpChunks data sz = take pos data # udpChunks (drop pos data) sz"
    using True ne by (subst udpChunks.simps) (simp add: udpPayload_eq pos_def)
  with rest show ?thesis by simp
qed

lemma udpWrite_loop_record:
  "udpWrite_loop record_Write k data tail sz
     = Some (None, k @ replicate (length (udpChunks tail sz)) data)"
proof (induction tail sz arbitrary: k rule: udpChunks.induct)
  case (1 tail sz)
  obtain head tail' where p: "udpPayload tail sz = (head, tail')"
    by (cases "udpPayload tail sz")
  show ?case
  proof (cases "length head = 0")
    case True
    then show ?thesis using p
      by (subst udpWrite_loop.simps, subst udpChunks.simps) simp
  next
    case False
    have w: "record_Write k data = (None, k @ [data])" by (simp add: record_Write_def)
    from 1 [OF p [symmetric] False, of "k @ [data]"] p False w show ?thesis
      by (subst udpWrite_loop.simps, subst udpChunks.simps) simp
  qed
qed

lemma udpWrite_record:
  "udpWrite record_Write k data sz = Some (None, k @ replicate (length (udpChunks data sz)) data)"
  unfolding udpWrite_def by (rule udpWrite_loop_record)

text \<open>
  C1, where the code departs from the specification. The specification: with every line
  shorter than \<open>maxSize\<close>, every chunk is made of whole lines, ends right after a newline
  and is at most \<open>maxSize\<close> bytes long. The code at the payload of three 6-byte lines
  \<open>m a=1\<close>, \<open>m a=2\<close>, \<open>m a=3\<close> and \<open>maxSize = 8\<close>: the first chunk is the first line
  without its newline, so the boundary falls before the newline; the second chunk is all
  the rest, 13 bytes and two lines. The loop of \<^verbatim>\<open>udpPayload\<close> leaves the newline at the
  head of \<^verbatim>\<open>tail\<close>, where the next \<^verbatim>\<open>IndexByte\<close> is 0 and ends the loop, and a payload
  that starts with a newline is returned whole. What \<^verbatim>\<open>udpWrite\<close> puts on the wire
  is the whole 19-byte payload, once per chunk.
\<close>

theorem udpChunks_failing_input:
  "udpChunks ''m a=1\<newline>m a=2\<newline>m a=3\<newline>'' 8
     = [''m a=1'', ''\<newline>m a=2\<newline>m a=3\<newline>'']
   \<and> length ''\<newline>m a=2\<newline>m a=3\<newline>'' = 13
   \<and> udpWrite record_Write [] ''m a=1\<newline>m a=2\<newline>m a=3\<newline>'' 8
     = Some (None, [''m a=1\<newline>m a=2\<newline>m a=3\<newline>'',
                    ''m a=1\<newline>m a=2\<newline>m a=3\<newline>''])"
  by code_simp

text \<open>
  C8. The chunks of a payload, concatenated in order, are the payload, byte for byte.
  This holds for every payload and every \<open>maxSize\<close>, so also for the payloads whose
  lines are all shorter than \<open>maxSize\<close>.
\<close>

theorem udpChunks_concat: "concat (udpChunks data sz) = data"
proof (induction data sz rule: udpChunks.induct)
  case (1 tail sz)
  obtain head tail' where p: "udpPayload tail sz = (head, tail')"
    by (cases "udpPayload tail sz")
  then have cat: "head @ tail' = tail" by (rule udpPayload_concat)
  show ?case
  proof (cases "length head = 0")
    case True
    with p have "tail = []" by (auto dest: udpPayload_empty_head)
    then show ?thesis using p True by (subst udpChunks.simps) simp
  next
    case False
    then have "concat (udpChunks tail' sz) = tail'" using 1 p by simp
    then show ?thesis using p cat False by (subst udpChunks.simps) simp
  qed
qed

theorem udpChunks_concat_witness:
  "concat (udpChunks ''m a=1\<newline>m a=2\<newline>m a=3\<newline>'' 8)
     = ''m a=1\<newline>m a=2\<newline>m a=3\<newline>''"
  using udpChunks_concat [of "''m a=1\<newline>m a=2\<newline>m a=3\<newline>''" 8] by simp

text \<open>
  C10. The loop of \<^verbatim>\<open>udpWrite\<close> returns, for every payload (the empty one and one with
  no final newline included), every \<open>maxSize\<close> (zero and negative included) and every
  behaviour of the connection. A round whose remainder is not empty leaves a strictly
  shorter remainder, also when the line at its head is longer than \<open>maxSize\<close>, and the
  round that ends the loop (an empty \<^verbatim>\<open>head\<close>) is the one whose remainder is empty.
\<close>

theorem udpWrite_terminates:
  "(\<exists>r. udpWrite cw k data sz = Some r)
   \<and> (tail \<noteq> [] \<longrightarrow> length (snd (udpPayload tail sz)) < length tail)
   \<and> (fst (udpPayload tail sz) = [] \<longleftrightarrow> tail = [])"
proof (intro conjI)
  show "\<exists>r. udpWrite cw k data sz = Some r"
    unfolding udpWrite_def by (rule udpWrite_loop_returns)
next
  show "tail \<noteq> [] \<longrightarrow> length (snd (udpPayload tail sz)) < length tail"
  proof
    assume ne: "tail \<noteq> []"
    obtain head tail' where p: "udpPayload tail sz = (head, tail')"
      by (cases "udpPayload tail sz")
    with ne have "head \<noteq> []" using udpPayload_head_empty [of tail sz] by simp
    from udpPayload_progress [OF p this] p
    show "length (snd (udpPayload tail sz)) < length tail" by simp
  qed
next
  show "fst (udpPayload tail sz) = [] \<longleftrightarrow> tail = []" by (rule udpPayload_head_empty)
qed

theorem udpWrite_terminates_witness:
  "(\<exists>r. udpWrite record_Write [] ''a line longer than three bytes'' 3 = Some r)
   \<and> ''a line longer than three bytes'' \<noteq> []
   \<and> length (snd (udpPayload ''a line longer than three bytes'' 3))
       < length ''a line longer than three bytes''
   \<and> (\<exists>r. udpWrite record_Write [] [] 0 = Some r)"
  using udpWrite_terminates [of record_Write "[]" "''a line longer than three bytes''" 3
          "''a line longer than three bytes''"]
        udpWrite_terminates [of record_Write "[]" "[]" 0 "[]"]
  by simp

section \<open>Properties of the pattern of \<^verbatim>\<open>newStmt\<close>\<close>

declare fold_words.simps [simp del]
declare match_fold.simps [simp del]

lemma fold_words_Cons:
  "k \<in> set (fold_words (x # xs)) \<longleftrightarrow>
     (\<exists>v r. v \<in> set (fold_orbit x) \<and> r \<in> set (fold_words xs) \<and> k = v @ r)"
  by (auto simp: fold_words.simps)

lemma strip_prefix_append: "strip_prefix p (p @ s) = Some s"
  by (simp add: strip_prefix_def)


lemma strip_prefix_hd: "u \<noteq> [] \<Longrightarrow> v \<noteq> [] \<Longrightarrow> hd u \<noteq> hd v \<Longrightarrow> strip_prefix u (v @ s) = None"
  by (cases u; cases v) (auto simp: strip_prefix_def)

lemma match_any_member:
  "distinct (map hd vs) \<Longrightarrow> [] \<notin> set vs \<Longrightarrow> v \<in> set vs \<Longrightarrow> match_any vs (v @ s) = Some s"
proof (induction vs)
  case Nil
  then show ?case by simp
next
  case (Cons u us)
  show ?case
  proof (cases "u = v")
    case True
    then show ?thesis by (simp add: strip_prefix_append)
  next
    case False
    with Cons.prems have v: "v \<in> set us" "v \<noteq> []" "u \<noteq> []" by auto
    with Cons.prems have "hd u \<noteq> hd v" by auto
    with v have "strip_prefix u (v @ s) = None" by (simp add: strip_prefix_hd)
    moreover have "match_any us (v @ s) = Some s" using Cons v by auto
    ultimately show ?thesis by simp
  qed
qed


lemma to_lower_neq: "is_upper x \<Longrightarrow> to_lower x \<noteq> x"
  by (auto simp: is_upper_def to_lower_def)

lemma fold_orbit_heads: "distinct (map hd (fold_orbit x)) \<and> [] \<notin> set (fold_orbit x)"
  using to_lower_neq [of x] by (auto simp: fold_orbit_def)

lemma match_fold_word: "k \<in> set (fold_words lit) \<Longrightarrow> match_fold lit (k @ s) = Some s"
proof (induction lit arbitrary: k)
  case Nil
  then show ?case by (simp add: fold_words.simps match_fold.simps)
next
  case (Cons x xs)
  then obtain v r where k: "k = v @ r" "v \<in> set (fold_orbit x)" "r \<in> set (fold_words xs)"
    unfolding fold_words_Cons by blast
  have "match_any (fold_orbit x) (v @ (r @ s)) = Some (r @ s)"
    using fold_orbit_heads [of x] k(2) by (intro match_any_member) auto
  with Cons.IH [OF k(3)] k(1) show ?case by (simp add: match_fold.simps)
qed


lemma ident_not_space: "is_ident x \<Longrightarrow> \<not> is_space x"
  by (auto simp: is_ident_def is_space_def)

lemma match_spaces_append:
  "space_word w \<Longrightarrow> s = [] \<or> \<not> is_space (hd s) \<Longrightarrow> match_spaces (w @ s) = Some s"
proof -
  assume w: "space_word w" and s: "s = [] \<or> \<not> is_space (hd s)"
  from w obtain x xs where wx: "w = x # xs" "is_space x" "\<forall>y\<in>set w. is_space y"
    by (cases w) (auto simp: space_word_def list_all_iff)
  have "dropWhile is_space (w @ s) = dropWhile is_space s"
    using wx(3) by simp
  also have "\<dots> = s" using s by (cases s) auto
  finally show ?thesis using wx by (simp add: match_spaces_def)
qed


lemma fold_INTO_head: "k \<in> set (fold_words ''INTO'') \<Longrightarrow> k \<noteq> [] \<and> \<not> is_space (hd k)"
proof -
  assume "k \<in> set (fold_words ''INTO'')"
  then obtain v r where "v \<in> set (fold_orbit (CHR ''I''))" "k = v @ r"
    unfolding fold_words_Cons by blast
  then show ?thesis
    by (auto simp: fold_orbit_def is_upper_def to_lower_def is_space_def)
qed

lemma rx_match:
  assumes "insert_form text ident rest"
  shows "rxInsert_FindStringSubmatch text =
           [take (length text - length rest + length (takeWhile (\<lambda>x. x \<noteq> newline) rest)) text,
            ident, takeWhile (\<lambda>x. x \<noteq> newline) rest]"
proof -
  from assms obtain k1 w1 k2 w2 where
    k1: "k1 \<in> set (fold_words ''INSERT'')" and w1: "space_word w1" and
    k2: "k2 \<in> set (fold_words ''INTO'')" and w2: "space_word w2" and
    id: "ident_word ident" and t: "text = k1 @ w1 @ k2 @ w2 @ ident @ ''.'' @ rest"
    unfolding insert_form_def fold_word_def by blast
  have idc: "ident \<noteq> []" "\<forall>x\<in>set ident. is_ident x"
    using id by (auto simp: ident_word_def list_all_iff)
  have m1: "match_fold ''INSERT'' text = Some (w1 @ k2 @ w2 @ ident @ ''.'' @ rest)"
    unfolding t by (rule match_fold_word [OF k1])
  have "k2 @ w2 @ ident @ ''.'' @ rest = [] \<or> \<not> is_space (hd (k2 @ w2 @ ident @ ''.'' @ rest))"
    using fold_INTO_head [OF k2] by simp
  then have m2: "match_spaces (w1 @ k2 @ w2 @ ident @ ''.'' @ rest) = Some (k2 @ w2 @ ident @ ''.'' @ rest)"
    by (rule match_spaces_append [OF w1])
  have m3: "match_fold ''INTO'' (k2 @ w2 @ ident @ ''.'' @ rest) = Some (w2 @ ident @ ''.'' @ rest)"
    by (rule match_fold_word [OF k2])
  have "ident @ ''.'' @ rest = [] \<or> \<not> is_space (hd (ident @ ''.'' @ rest))"
    using idc by (cases ident) (simp_all add: ident_not_space)
  then have m4: "match_spaces (w2 @ ident @ ''.'' @ rest) = Some (ident @ ''.'' @ rest)"
    by (rule match_spaces_append [OF w2])
  have nd: "\<not> is_ident (CHR ''.'')" by (simp add: is_ident_def)
  have m5: "takeWhile is_ident (ident @ ''.'' @ rest) = ident"
    using idc nd by simp
  have m6: "dropWhile is_ident (ident @ ''.'' @ rest) = ''.'' @ rest"
    using idc nd by simp
  have len: "length text - length rest = length text - length rest" by simp
  show ?thesis
    unfolding rxInsert_FindStringSubmatch_def m1 option.case m2 m3 m4 m5 m6 Let_def
    using idc(1) by simp
qed





text \<open>
  What \<^verbatim>\<open>newStmt\<close> does with any text of the form: the body of the insert statement is
  the rest up to its first newline.
\<close>

lemma newStmt_insert_form:
  "insert_form text ident rest \<Longrightarrow>
     newStmt text = (insertStmt ident (takeWhile (\<lambda>x. x \<noteq> newline) rest), None)"
  using rx_match [of "text" ident rest] by (simp add: newStmt_def)

section \<open>Routing of statements\<close>




section \<open>Transactions\<close>

lemma wf_world_tx:
  "wf_world s \<Longrightarrow> tx s = Some t \<Longrightarrow> t < length (txs s) \<and> bp (txs s ! t) < length (batches s)"
  by (auto simp: wf_world_def list_all_length)

lemma wf_world_Begin: "wf_world s \<Longrightarrow> wf_world (snd (Begin s))"
  by (auto simp: wf_world_def Begin_def newTx_def list_all_length nth_append split: option.splits)

lemma wf_world_Rollback: "wf_world s \<Longrightarrow> Rollback t s = Return (e, s') \<Longrightarrow> wf_world s'"
  by (auto simp: wf_world_def Rollback_def list_all_length nth_list_update split: if_splits)

lemma wf_world_Commit: "wf_world s \<Longrightarrow> Commit cl t s = Return (e, s') \<Longrightarrow> wf_world s'"
  by (auto simp: wf_world_def Commit_def split: if_splits prod.splits)

lemma wf_world_AddPoints: "wf_world s \<Longrightarrow> AddPoints b ps s = Return s' \<Longrightarrow> wf_world s'"
  by (auto simp: wf_world_def AddPoints_def split: if_splits option.splits)

lemma wf_world_Exec: "wf_world s \<Longrightarrow> wf_world (snd (Exec cl st s))"
  by (auto simp: wf_world_def Exec_def stmt_Exec_def insertStmt_Exec_def
           split: Stmt.splits prod.splits option.splits)

text \<open>
  C5. \<^verbatim>\<open>Begin\<close> on a connection whose slot holds a transaction returns the error
  \<open>a Tx already begins\<close> and changes nothing: the state after is the state before, so the
  open transaction and its batch are as they were. \<^verbatim>\<open>Begin\<close> on a connection with an
  empty slot returns a new transaction with no error: its address and the address of its
  batch are fresh, its batch is empty, the slot points to it, and the objects that
  existed, the client, the database and the precision are unchanged.
\<close>

theorem Begin_slot:
  "(tx s = Some t \<longrightarrow> Begin s = ((None, Some (errors_New ''a Tx already begins'')), s))
   \<and> (tx s = None \<longrightarrow>
        (\<exists>t' s'. Begin s = ((Some t', None), s') \<and> tx s' = Some t'
           \<and> t' = length (txs s) \<and> txs s' = txs s @ [\<lparr>bp = length (batches s)\<rparr>]
           \<and> batches s' = batches s @ [[]]
           \<and> batches s' ! bp (txs s' ! t') = []
           \<and> c s' = c s \<and> database s' = database s \<and> precision s' = precision s))"
  by (simp add: Begin_def newTx_def)

theorem Begin_slot_witness:
  "tx example_world = Some 0
   \<and> Begin example_world = ((None, Some (errors_New ''a Tx already begins'')), example_world)
   \<and> tx (example_world\<lparr>tx := None\<rparr>) = None
   \<and> Begin (example_world\<lparr>tx := None\<rparr>)
       = ((Some 1, None),
          example_world\<lparr>tx := Some 1, txs := [\<lparr>bp = 0\<rparr>, \<lparr>bp = 1\<rparr>],
                         batches := [[Point (\<lambda>precision. ''cpu value=1 100'')], []]\<rparr>)"
  using Begin_slot [of example_world 0] Begin_slot [of "example_world\<lparr>tx := None\<rparr>" 0]
  by (auto simp: example_world_def)

text \<open>
  C4. \<^verbatim>\<open>Commit\<close> on the open transaction of a connection makes one call of the client's
  \<^verbatim>\<open>Write\<close>, with the batch serialised at precision \<open>ns\<close> and a write configuration that
  names the connection's database; it returns the error of that call, whatever it is, and
  in the state it leaves the slot of the connection is empty and the client is as that
  one call left it.
\<close>

theorem Commit_clears_slot:
  assumes "wf_world s" and "tx s = Some t"
  shows "let w = Write cl (c s) (Bytes (batches s ! bp (txs s ! t)) ''ns'')
                   \<lparr>WriteConfig.Precision = [], WriteConfig.Database = database s,
                    RetentionPolicy = [], WriteConsistency = []\<rparr>
         in Commit cl t s = Return (fst w, s\<lparr>c := snd w, tx := None\<rparr>)
            \<and> tx (s\<lparr>c := snd w, tx := None\<rparr>) = None"
  using wf_world_tx [OF assms] by (simp add: Commit_def Let_def split: prod.splits)

theorem Commit_clears_slot_witness:
  "wf_world example_world \<and> tx example_world = Some 0
   \<and> Commit (recorder (Some (lib_error ''connection refused''))) 0 example_world
       = Return (Some (lib_error ''connection refused''),
                 example_world\<lparr>c := [WriteCall ''cpu value=1 100\<newline>''
                                        \<lparr>WriteConfig.Precision = [], WriteConfig.Database = ''mydb'',
                                         RetentionPolicy = [], WriteConsistency = []\<rparr>],
                                tx := None\<rparr>)"
proof -
  have h: "wf_world example_world" "tx example_world = Some 0"
    by (simp_all add: wf_world_def example_world_def)
  show ?thesis
    using h Commit_clears_slot [OF h, of "recorder (Some (lib_error ''connection refused''))"]
    by (simp add: Let_def recorder_def example_world_def Bytes_def newline_def)
qed

text \<open>
  C6. \<^verbatim>\<open>Rollback\<close> on the open transaction returns no error, empties the slot, gives
  the transaction a fresh empty batch (the batch objects that existed are unchanged) and
  leaves the client as it was: it has no access to it. A \<^verbatim>\<open>Begin\<close> after it succeeds,
  and after \<^verbatim>\<open>AddPoints\<close> of the points \<open>ps\<close> to the new transaction's batch,
  \<^verbatim>\<open>Commit\<close> makes one call of \<^verbatim>\<open>Write\<close> on the client as it was before the rollback,
  with the serialisation of \<open>ps\<close> alone.
\<close>

theorem Rollback_discards:
  assumes "wf_world s" and "tx s = Some t"
  shows "\<exists>s1 t2 s2 s3 w.
           Rollback t s = Return (None, s1)
           \<and> tx s1 = None \<and> c s1 = c s
           \<and> bp (txs s1 ! t) = length (batches s)
           \<and> batches s1 = batches s @ [[]]
           \<and> Begin s1 = ((Some t2, None), s2)
           \<and> AddPoints (bp (txs s2 ! t2)) ps s2 = Return s3
           \<and> w = Write cl (c s) (Bytes ps ''ns'')
                   \<lparr>WriteConfig.Precision = [], WriteConfig.Database = database s,
                    RetentionPolicy = [], WriteConsistency = []\<rparr>
           \<and> Commit cl t2 s3 = Return (fst w, s3\<lparr>c := snd w, tx := None\<rparr>)"
  using wf_world_tx [OF assms]
  by (simp add: Rollback_def Begin_def newTx_def AddPoints_def Commit_def nth_append split: prod.splits)

theorem Rollback_discards_witness:
  "wf_world example_world \<and> tx example_world = Some 0
   \<and> (\<exists>s1 t2 s2 s3.
         Rollback 0 example_world = Return (None, s1)
       \<and> c s1 = [] \<and> tx s1 = None
       \<and> Begin s1 = ((Some t2, None), s2)
       \<and> AddPoints (bp (txs s2 ! t2)) [Point (\<lambda>precision. ''mem value=2 200'')] s2 = Return s3
       \<and> Commit (recorder None) t2 s3
           = Return (None, s3\<lparr>c := [WriteCall ''mem value=2 200\<newline>''
                                      \<lparr>WriteConfig.Precision = [], WriteConfig.Database = ''mydb'',
                                       RetentionPolicy = [], WriteConsistency = []\<rparr>],
                              tx := None\<rparr>))"
proof -
  have h: "wf_world example_world" "tx example_world = Some 0"
    by (simp_all add: wf_world_def example_world_def)
  from Rollback_discards [OF h, of "[Point (\<lambda>precision. ''mem value=2 200'')]" "recorder None"]
  obtain s1 t2 s2 s3 w where r:
    "Rollback 0 example_world = Return (None, s1)" "tx s1 = None" "c s1 = c example_world"
    "Begin s1 = ((Some t2, None), s2)"
    "AddPoints (bp (txs s2 ! t2)) [Point (\<lambda>precision. ''mem value=2 200'')] s2 = Return s3"
    "w = Write (recorder None) (c example_world) (Bytes [Point (\<lambda>precision. ''mem value=2 200'')] ''ns'')
           \<lparr>WriteConfig.Precision = [], WriteConfig.Database = database example_world,
            RetentionPolicy = [], WriteConsistency = []\<rparr>"
    "Commit (recorder None) t2 s3 = Return (fst w, s3\<lparr>c := snd w, tx := None\<rparr>)"
    by blast
  have w: "w = (None, [WriteCall ''mem value=2 200\<newline>''
                         \<lparr>WriteConfig.Precision = [], WriteConfig.Database = ''mydb'',
                          RetentionPolicy = [], WriteConsistency = []\<rparr>])"
    using r(6) by (simp add: recorder_def example_world_def Bytes_def newline_def)
  have c1: "c s1 = []" using r(3) by (simp add: example_world_def)
  from r(7) w have cm: "Commit (recorder None) t2 s3
      = Return (None, s3\<lparr>c := [WriteCall ''mem value=2 200\<newline>''
                                 \<lparr>WriteConfig.Precision = [], WriteConfig.Database = ''mydb'',
                                  RetentionPolicy = [], WriteConsistency = []\<rparr>],
                         tx := None\<rparr>)"
    by simp
  from h r(1) c1 r(2) r(4) r(5) cm show ?thesis by blast
qed

text \<open>
  C7. Executing an insert statement makes one call of the client's \<^verbatim>\<open>Write\<close> with the
  statement's body and database, returns the result \<open>(0, 0)\<close> with the error of that call,
  and changes nothing but the client: the slot, the transactions and every batch are as
  before, whether a transaction is open or not.
\<close>

theorem insertStmt_Exec_writes_through:
  "let w = Write cl (c s) q
             \<lparr>WriteConfig.Precision = [], WriteConfig.Database = dbname,
              RetentionPolicy = [], WriteConsistency = []\<rparr>;
       r = Exec cl (insertStmt dbname q) s
   in r = (Return (Some \<lparr>lastInsertedID = 0, rowsAffected = 0\<rparr>, fst w), s\<lparr>c := snd w\<rparr>)
      \<and> tx (snd r) = tx s \<and> txs (snd r) = txs s \<and> batches (snd r) = batches s"
  by (simp add: Exec_def insertStmt_Exec_def Let_def split: prod.splits)

theorem insertStmt_Exec_writes_through_witness:
  "Exec (recorder None) (insertStmt ''mydb'' ''cpu,host=a value=1 100'') example_world
     = (Return (Some \<lparr>lastInsertedID = 0, rowsAffected = 0\<rparr>, None),
        example_world\<lparr>c := [WriteCall ''cpu,host=a value=1 100''
                               \<lparr>WriteConfig.Precision = [], WriteConfig.Database = ''mydb'',
                                RetentionPolicy = [], WriteConsistency = []\<rparr>]\<rparr>)
   \<and> tx (snd (Exec (recorder None) (insertStmt ''mydb'' ''cpu,host=a value=1 100'') example_world)) = Some 0
   \<and> batches (snd (Exec (recorder None) (insertStmt ''mydb'' ''cpu,host=a value=1 100'') example_world))
       = [[Point (\<lambda>precision. ''cpu value=1 100'')]]"
  using insertStmt_Exec_writes_through [of "recorder None" example_world "''cpu,host=a value=1 100''" "''mydb''"]
  by (simp add: Let_def recorder_def example_world_def)

section \<open>Opening a connection and decoding a query response\<close>




text \<open>
  C2, where the statement as written fails: a response of status 500 whose body
  \<open>Internal Server Error\<close> is no JSON (the decoder's error is about its first character)
  makes \<^verbatim>\<open>Query\<close> return the decode error, which holds the status code and the
  decoder's message, and no response.
\<close>

theorem Query_decode_error_returned:
  "httpClient_Query_decoded \<lparr>StatusCode = 500, Body = ''Internal Server Error''\<rparr>
      (Some ''invalid character 'I' looking for beginning of value'')
      \<lparr>Results = [], Response.Err = []\<rparr>
   = (None, Some (fmt_Errorf ''unable to decode json: received status code %d err: %s''
                    [ArgD 500, ArgS ''invalid character 'I' looking for beginning of value'']))"
  by (simp add: httpClient_Query_decoded_def)

text \<open>
  C2, amended. With a status other than 200 and the decoder's error \<open>EOF\<close> (an empty
  body), \<^verbatim>\<open>Query\<close> drops the decode error and returns the response together with the
  error \<open>received status code N from server\<close>, unless the response itself carries an
  error text; that error holds the status code and not the body. Any other decoder
  error, and \<open>EOF\<close> with status 200, is returned as the decode error
  \<open>unable to decode json\<close> with the status code and the decoder's message, and no
  response.
\<close>

theorem Query_status_and_decode_errors:
  "(StatusCode resp \<noteq> 200 \<longrightarrow>
      httpClient_Query_decoded resp (Some ''EOF'') response
        = (Some response,
           if Response_Error response = None
           then Some (fmt_Errorf ''received status code %d from server'' [ArgD (StatusCode resp)])
           else None))
   \<and> (msg \<noteq> ''EOF'' \<or> StatusCode resp = 200 \<longrightarrow>
      httpClient_Query_decoded resp (Some msg) response
        = (None, Some (fmt_Errorf ''unable to decode json: received status code %d err: %s''
                         [ArgD (StatusCode resp), ArgS msg])))"
  by (auto simp: httpClient_Query_decoded_def)

theorem Query_status_and_decode_errors_witness:
  "(500::int) \<noteq> 200 \<and> ''unexpected EOF'' \<noteq> ''EOF''
   \<and> httpClient_Query_decoded \<lparr>StatusCode = 500, Body = []\<rparr> (Some ''EOF'')
        \<lparr>Results = [], Response.Err = []\<rparr>
     = (Some \<lparr>Results = [], Response.Err = []\<rparr>,
        Some (fmt_Errorf ''received status code %d from server'' [ArgD 500]))
   \<and> httpClient_Query_decoded \<lparr>StatusCode = 500, Body = ''{''\<rparr> (Some ''unexpected EOF'')
        \<lparr>Results = [], Response.Err = []\<rparr>
     = (None, Some (fmt_Errorf ''unable to decode json: received status code %d err: %s''
                      [ArgD 500, ArgS ''unexpected EOF'']))"
  using Query_status_and_decode_errors
          [of "\<lparr>StatusCode = 500, Body = []\<rparr>" "\<lparr>Results = [], Response.Err = []\<rparr>"
              "''unexpected EOF''"]
        Query_status_and_decode_errors
          [of "\<lparr>StatusCode = 500, Body = ''{''\<rparr>" "\<lparr>Results = [], Response.Err = []\<rparr>"
              "''unexpected EOF''"]
  by (simp add: Response_Error_def)

end
